theory Spec2Isabelle
  imports Complex_Main "HOL-Library.Multiset" "HOL-Library.List_Lexorder" "HOL-Library.Char_ord"
begin

section \<open>JavaScript values read by the CSV loader\<close>

text \<open>
  A parsed CSV record (csv-parser) is an object whose fields are strings; a column the
  file does not have reads as \<^verbatim>\<open>undefined\<close>. A field is a \<open>string option\<close>:
  \<open>None\<close> is \<^verbatim>\<open>undefined\<close>.
\<close>

record csv_row =
  client_code :: "string option"
  first_name :: "string option"
  last_name :: "string option"
  email :: "string option"
  phone :: "string option"
  address :: "string option"
  city :: "string option"
  department :: "string option"
  invoice_number :: "string option"
  billing_period :: "string option"
  total_amount :: "string option"
  paid_amount :: "string option"
  invoice_status :: "string option"
  transaction_reference :: "string option"
  transaction_date :: "string option"
  transaction_amount :: "string option"
  transaction_type :: "string option"
  transaction_status :: "string option"
  platform_name :: "string option"

text \<open>
  A JavaScript number as far as the loader needs it. The finite values are kept as exact
  rationals: the rounding of a decimal literal to the nearest double is not part of the
  model.
\<close>

datatype js_number = NaN | Finite rat | PosInfinity | NegInfinity

text \<open>\<^verbatim>\<open>!v\<close> for a field: \<^verbatim>\<open>undefined\<close> and the empty string are falsy.\<close>

definition falsy :: "string option \<Rightarrow> bool" where
  "falsy v = (case v of None \<Rightarrow> True | Some s \<Rightarrow> s = [])"

definition is_digit :: "char \<Rightarrow> bool" where
  "is_digit c = (c \<in> set ''0123456789'')"

definition digit_val :: "char \<Rightarrow> nat" where
  "digit_val c = length (takeWhile (\<lambda>d. d \<noteq> c) ''0123456789'')"

definition digits_nat :: "string \<Rightarrow> nat" where
  "digits_nat ds = foldl (\<lambda>n c. 10 * n + digit_val c) 0 ds"

text \<open>The white space \<^verbatim>\<open>parseFloat\<close> skips, as far as it is ASCII.\<close>

definition is_js_space :: "char \<Rightarrow> bool" where
  "is_js_space c = (of_char c \<in> set [9, 10, 11, 12, 13, 32 :: nat])"

definition scale10 :: "rat \<Rightarrow> int \<Rightarrow> rat" where
  "scale10 q e = (if 0 \<le> e then q * 10 ^ nat e else q / 10 ^ nat (- e))"

text \<open>The exponent part of a decimal literal; without digits it is not consumed.\<close>

definition exponent_part :: "string \<Rightarrow> int" where
  "exponent_part r =
     (case r of
        [] \<Rightarrow> 0
      | c # r1 \<Rightarrow>
          if c = CHR ''e'' \<or> c = CHR ''E'' then
            (case r1 of
               [] \<Rightarrow> 0
             | s # r2 \<Rightarrow>
                 if s = CHR ''-'' then
                   (if takeWhile is_digit r2 = [] then 0
                    else - int (digits_nat (takeWhile is_digit r2)))
                 else if s = CHR ''+'' then int (digits_nat (takeWhile is_digit r2))
                 else int (digits_nat (takeWhile is_digit r1)))
          else 0)"

definition unsigned_float :: "string \<Rightarrow> js_number" where
  "unsigned_float u =
     (let ip = takeWhile is_digit u;
          r1 = dropWhile is_digit u;
          fp = (case r1 of [] \<Rightarrow> [] | c # r \<Rightarrow> if c = CHR ''.'' then takeWhile is_digit r else []);
          r2 = (case r1 of [] \<Rightarrow> [] | c # r \<Rightarrow> if c = CHR ''.'' then dropWhile is_digit r else r1)
      in if ip = [] \<and> fp = [] then NaN
         else Finite (scale10
                (of_nat (digits_nat ip) + of_nat (digits_nat fp) / 10 ^ length fp)
                (exponent_part r2)))"

definition negate :: "js_number \<Rightarrow> js_number" where
  "negate n = (case n of NaN \<Rightarrow> NaN | Finite q \<Rightarrow> Finite (- q)
                | PosInfinity \<Rightarrow> NegInfinity | NegInfinity \<Rightarrow> PosInfinity)"

definition starts_with :: "string \<Rightarrow> string \<Rightarrow> bool" where
  "starts_with p s = (take (length p) s = p)"

definition signless_float :: "string \<Rightarrow> js_number" where
  "signless_float u = (if starts_with ''Infinity'' u then PosInfinity else unsigned_float u)"

text \<open>
  \<^verbatim>\<open>parseFloat(v)\<close>: the longest prefix of the trimmed string that is a decimal literal;
  \<^verbatim>\<open>NaN\<close> when there is none. \<^verbatim>\<open>parseFloat(undefined)\<close> parses the string "undefined".
\<close>

definition parseFloat :: "string option \<Rightarrow> js_number" where
  "parseFloat v =
     (case v of
        None \<Rightarrow> NaN
      | Some s \<Rightarrow>
          (case dropWhile is_js_space s of
             [] \<Rightarrow> NaN
           | c # r \<Rightarrow>
               if c = CHR ''-'' then negate (signless_float r)
               else if c = CHR ''+'' then signless_float r
               else signless_float (c # r)))"

definition isNaN :: "js_number \<Rightarrow> bool" where
  "isNaN n = (case n of NaN \<Rightarrow> True | _ \<Rightarrow> False)"

text \<open>A number inside a template literal: its decimal digits.\<close>

fun show_nat :: "nat \<Rightarrow> string" where
  "show_nat n =
     (if n < 10 then [''0123456789'' ! n]
      else show_nat (n div 10) @ [''0123456789'' ! (n mod 10)])"

declare show_nat.simps [simp del]

section \<open>validateRow\<close>

definition row_prefix :: "nat \<Rightarrow> string" where
  "row_prefix rowNumber = ''Row '' @ show_nat rowNumber @ '': ''"

definition missing_client :: "csv_row \<Rightarrow> bool" where
  "missing_client data = (falsy (client_code data) \<or> falsy (first_name data) \<or> falsy (last_name data))"

definition invalid_amount :: "string option \<Rightarrow> bool" where
  "invalid_amount v = (\<not> falsy v \<and> isNaN (parseFloat v))"

definition validateRow :: "csv_row \<Rightarrow> nat \<Rightarrow> string list" where
  "validateRow data rowNumber =
     (if missing_client data
      then [row_prefix rowNumber @ ''Missing required client information''] else [])
     @ (if falsy (invoice_number data)
        then [row_prefix rowNumber @ ''Missing invoice number''] else [])
     @ (if falsy (transaction_reference data)
        then [row_prefix rowNumber @ ''Missing transaction reference''] else [])
     @ (if falsy (platform_name data)
        then [row_prefix rowNumber @ ''Missing platform name''] else [])
     @ (if invalid_amount (total_amount data)
        then [row_prefix rowNumber @ ''Invalid total amount''] else [])
     @ (if invalid_amount (paid_amount data)
        then [row_prefix rowNumber @ ''Invalid paid amount''] else [])
     @ (if invalid_amount (transaction_amount data)
        then [row_prefix rowNumber @ ''Invalid transaction amount''] else [])"

section \<open>executeQuery\<close>

text \<open>
  What \<^verbatim>\<open>executeQuery\<close> of config/database.js resolves to: the object
  \<^verbatim>\<open>{ success: true, data: rows }\<close>, or \<^verbatim>\<open>{ success: false, error: message }\<close> when
  \<^verbatim>\<open>pool.execute\<close> threw. It never throws itself.
\<close>

datatype 'r query_result = QSuccess 'r | QFailure string

text \<open>
  \<^verbatim>\<open>pool.execute(query, params)\<close> is the argument \<open>run\<close>: from the state of the database
  it either throws (\<open>Inl\<close>, the error's message, the database as it was) or returns the
  new state and the rows.
\<close>

definition executeQuery :: "('db \<Rightarrow> string + 'db \<times> 'r) \<Rightarrow> 'db \<Rightarrow> 'db \<times> 'r query_result" where
  "executeQuery run db =
     (case run db of
        Inr (db', rows) \<Rightarrow> (db', QSuccess rows)
      | Inl message \<Rightarrow> (db, QFailure message))"

text \<open>
  The loader reads \<^verbatim>\<open>.length\<close>, \<^verbatim>\<open>[0]\<close> and \<^verbatim>\<open>.insertId\<close> on the object that
  \<^verbatim>\<open>executeQuery\<close> returned. Neither object literal has such a key, so each read gives
  \<^verbatim>\<open>undefined\<close> (\<open>None\<close>); reading a property of the undefined \<^verbatim>\<open>[0]\<close> throws a
  TypeError.
\<close>

definition prop_length :: "'r query_result \<Rightarrow> nat option" where
  "prop_length r = (case r of QSuccess _ \<Rightarrow> None | QFailure _ \<Rightarrow> None)"

definition prop_insertId :: "'r query_result \<Rightarrow> nat option" where
  "prop_insertId r = (case r of QSuccess _ \<Rightarrow> None | QFailure _ \<Rightarrow> None)"

definition first_row_id :: "'r query_result \<Rightarrow> string + nat option" where
  "first_row_id r =
     (case r of
        QSuccess _ \<Rightarrow> Inl ''Cannot read properties of undefined''
      | QFailure _ \<Rightarrow> Inl ''Cannot read properties of undefined'')"

text \<open>\<^verbatim>\<open>v > n\<close> for a number or \<^verbatim>\<open>undefined\<close>: \<^verbatim>\<open>undefined > 0\<close> is false.\<close>

definition js_gt :: "nat option \<Rightarrow> nat \<Rightarrow> bool" where
  "js_gt v n = (case v of None \<Rightarrow> False | Some k \<Rightarrow> n < k)"

section \<open>The statements of the loader and their parameters\<close>

datatype param = PUndefined | PNull | PString string | PNumber js_number

datatype statement =
    SelectClientByCode | UpdateClient | InsertClient
  | SelectInvoiceByNumber | UpdateInvoice | InsertInvoice
  | SelectPlatformByName | InsertPlatform
  | SelectTransactionByReference | UpdateTransaction | InsertTransaction

text \<open>A field passed as it is, and \<^verbatim>\<open>field || null\<close>.\<close>

definition field_param :: "string option \<Rightarrow> param" where
  "field_param v = (case v of None \<Rightarrow> PUndefined | Some s \<Rightarrow> PString s)"

definition or_null :: "string option \<Rightarrow> param" where
  "or_null v = (if falsy v then PNull else field_param v)"

definition id_param :: "nat option \<Rightarrow> param" where
  "id_param v = (case v of None \<Rightarrow> PUndefined | Some n \<Rightarrow> PNumber (Finite (of_nat n)))"

text \<open>What the three process functions return: the surrogate id and the created flag.\<close>

record entity_result =
  entityId :: "nat option"
  created :: bool

type_synonym ('db, 'r) pool = "statement \<Rightarrow> param list \<Rightarrow> 'db \<Rightarrow> string + 'db \<times> 'r"

section \<open>processClient, processInvoice, processTransaction\<close>

text \<open>
  Each function returns the database it left behind and either the message of the Error
  it threw (\<open>Inl\<close>) or its result.
\<close>

definition processClient ::
  "('db, 'r) pool \<Rightarrow> csv_row \<Rightarrow> 'db \<Rightarrow> 'db \<times> (string + entity_result)" where
  "processClient pool clientData db =
     (let (db1, existingClient) =
            executeQuery (pool SelectClientByCode [field_param (client_code clientData)]) db
      in if js_gt (prop_length existingClient) 0 then
           (let (db2, updated) =
                  executeQuery (pool UpdateClient
                    [field_param (first_name clientData), field_param (last_name clientData),
                     or_null (email clientData), or_null (phone clientData),
                     or_null (address clientData), or_null (city clientData),
                     or_null (department clientData), field_param (client_code clientData)]) db1
            in case first_row_id existingClient of
                 Inl message \<Rightarrow> (db2, Inl (''Error processing client: '' @ message))
               | Inr cid \<Rightarrow> (db2, Inr \<lparr>entityId = cid, created = False\<rparr>))
         else
           (let (db2, result) =
                  executeQuery (pool InsertClient
                    [field_param (client_code clientData), field_param (first_name clientData),
                     field_param (last_name clientData),
                     or_null (email clientData), or_null (phone clientData),
                     or_null (address clientData), or_null (city clientData),
                     or_null (department clientData)]) db1
            in (db2, Inr \<lparr>entityId = prop_insertId result, created = True\<rparr>)))"

definition processInvoice ::
  "('db, 'r) pool \<Rightarrow> csv_row \<Rightarrow> nat option \<Rightarrow> 'db \<Rightarrow> 'db \<times> (string + entity_result)" where
  "processInvoice pool invoiceData clientId db =
     (let (db1, existingInvoice) =
            executeQuery (pool SelectInvoiceByNumber [field_param (invoice_number invoiceData)]) db
      in if js_gt (prop_length existingInvoice) 0 then
           (let (db2, updated) =
                  executeQuery (pool UpdateInvoice
                    [field_param (billing_period invoiceData),
                     PNumber (parseFloat (total_amount invoiceData)),
                     PNumber (parseFloat (paid_amount invoiceData)),
                     field_param (invoice_status invoiceData),
                     field_param (invoice_number invoiceData)]) db1
            in case first_row_id existingInvoice of
                 Inl message \<Rightarrow> (db2, Inl (''Error processing invoice: '' @ message))
               | Inr iid \<Rightarrow> (db2, Inr \<lparr>entityId = iid, created = False\<rparr>))
         else
           (let (db2, result) =
                  executeQuery (pool InsertInvoice
                    [field_param (invoice_number invoiceData), id_param clientId,
                     field_param (billing_period invoiceData),
                     PNumber (parseFloat (total_amount invoiceData)),
                     PNumber (parseFloat (paid_amount invoiceData)),
                     field_param (invoice_status invoiceData)]) db1
            in (db2, Inr \<lparr>entityId = prop_insertId result, created = True\<rparr>)))"

text \<open>
  The first block of \<^verbatim>\<open>processTransaction\<close> ("Get or create platform"): the database it
  leaves and the value of \<^verbatim>\<open>platformId\<close> after it.
\<close>

definition getOrCreatePlatform ::
  "('db, 'r) pool \<Rightarrow> csv_row \<Rightarrow> 'db \<Rightarrow> 'db \<times> (string + nat option)" where
  "getOrCreatePlatform pool transactionData db =
     (let (db1, existingPlatform) =
            executeQuery (pool SelectPlatformByName [field_param (platform_name transactionData)]) db
      in if js_gt (prop_length existingPlatform) 0 then (db1, first_row_id existingPlatform)
         else
           (let (db2, platformResult) =
                  executeQuery (pool InsertPlatform
                    [field_param (platform_name transactionData), PString ''DIGITAL_WALLET'']) db1
            in (db2, Inr (prop_insertId platformResult))))"

definition processTransaction ::
  "('db, 'r) pool \<Rightarrow> csv_row \<Rightarrow> nat option \<Rightarrow> 'db \<Rightarrow> 'db \<times> (string + entity_result)" where
  "processTransaction pool transactionData invoiceId db =
     (case getOrCreatePlatform pool transactionData db of
        (db0, Inl message) \<Rightarrow> (db0, Inl (''Error processing transaction: '' @ message))
      | (db0, Inr platformId) \<Rightarrow>
         (let (db1, existingTransaction) =
                executeQuery (pool SelectTransactionByReference
                  [field_param (transaction_reference transactionData)]) db0
          in if js_gt (prop_length existingTransaction) 0 then
               (let (db2, updated) =
                      executeQuery (pool UpdateTransaction
                        [id_param invoiceId, id_param platformId,
                         field_param (transaction_date transactionData),
                         PNumber (parseFloat (transaction_amount transactionData)),
                         field_param (transaction_type transactionData),
                         field_param (transaction_status transactionData),
                         field_param (transaction_reference transactionData)]) db1
                in case first_row_id existingTransaction of
                     Inl message \<Rightarrow> (db2, Inl (''Error processing transaction: '' @ message))
                   | Inr tid \<Rightarrow> (db2, Inr \<lparr>entityId = tid, created = False\<rparr>))
             else
               (let (db2, result) =
                      executeQuery (pool InsertTransaction
                        [field_param (transaction_reference transactionData),
                         id_param invoiceId, id_param platformId,
                         field_param (transaction_date transactionData),
                         PNumber (parseFloat (transaction_amount transactionData)),
                         field_param (transaction_type transactionData),
                         field_param (transaction_status transactionData)]) db1
                in (db2, Inr \<lparr>entityId = prop_insertId result, created = True\<rparr>))))"

section \<open>processCSVData\<close>

record stats =
  clients_processed :: nat
  clients_created :: nat
  clients_updated :: nat
  invoices_processed :: nat
  invoices_created :: nat
  invoices_updated :: nat
  transactions_processed :: nat
  transactions_created :: nat
  transactions_updated :: nat
  errors :: "string list"

definition initial_stats :: stats where
  "initial_stats =
     \<lparr>clients_processed = 0, clients_created = 0, clients_updated = 0,
      invoices_processed = 0, invoices_created = 0, invoices_updated = 0,
      transactions_processed = 0, transactions_created = 0, transactions_updated = 0,
      errors = []\<rparr>"

definition count_client :: "entity_result \<Rightarrow> stats \<Rightarrow> stats" where
  "count_client r st =
     (let st1 = (if created r then st\<lparr>clients_created := clients_created st + 1\<rparr>
                 else st\<lparr>clients_updated := clients_updated st + 1\<rparr>)
      in st1\<lparr>clients_processed := clients_processed st1 + 1\<rparr>)"

definition count_invoice :: "entity_result \<Rightarrow> stats \<Rightarrow> stats" where
  "count_invoice r st =
     (let st1 = (if created r then st\<lparr>invoices_created := invoices_created st + 1\<rparr>
                 else st\<lparr>invoices_updated := invoices_updated st + 1\<rparr>)
      in st1\<lparr>invoices_processed := invoices_processed st1 + 1\<rparr>)"

definition count_transaction :: "entity_result \<Rightarrow> stats \<Rightarrow> stats" where
  "count_transaction r st =
     (let st1 = (if created r then st\<lparr>transactions_created := transactions_created st + 1\<rparr>
                 else st\<lparr>transactions_updated := transactions_updated st + 1\<rparr>)
      in st1\<lparr>transactions_processed := transactions_processed st1 + 1\<rparr>)"

text \<open>The \<^verbatim>\<open>catch\<close> of the loop body.\<close>

definition catch_row :: "nat \<Rightarrow> string \<Rightarrow> stats \<Rightarrow> stats" where
  "catch_row rowNumber message st = st\<lparr>errors := errors st @ [row_prefix rowNumber @ message]\<rparr>"

text \<open>One turn of the loop of \<^verbatim>\<open>processCSVData\<close>, for the row with number \<open>rowNumber\<close>.\<close>

definition processRow ::
  "('db, 'r) pool \<Rightarrow> nat \<Rightarrow> csv_row \<Rightarrow> 'db \<times> stats \<Rightarrow> 'db \<times> stats" where
  "processRow pool rowNumber row dbst =
     (let db = fst dbst; st = snd dbst; validationErrors = validateRow row rowNumber
      in if 0 < length validationErrors then (db, st\<lparr>errors := errors st @ validationErrors\<rparr>)
         else
           (case processClient pool row db of
              (db1, Inl message) \<Rightarrow> (db1, catch_row rowNumber message st)
            | (db1, Inr clientResult) \<Rightarrow>
               (let st1 = count_client clientResult st
                in case processInvoice pool row (entityId clientResult) db1 of
                     (db2, Inl message) \<Rightarrow> (db2, catch_row rowNumber message st1)
                   | (db2, Inr invoiceResult) \<Rightarrow>
                      (let st2 = count_invoice invoiceResult st1
                       in case processTransaction pool row (entityId invoiceResult) db2 of
                            (db3, Inl message) \<Rightarrow> (db3, catch_row rowNumber message st2)
                          | (db3, Inr transactionResult) \<Rightarrow>
                              (db3, count_transaction transactionResult st2)))))"

text \<open>The loop from index \<open>i\<close> on: \<^verbatim>\<open>rowNumber = i + 2\<close>.\<close>

fun processRows :: "('db, 'r) pool \<Rightarrow> nat \<Rightarrow> csv_row list \<Rightarrow> 'db \<times> stats \<Rightarrow> 'db \<times> stats" where
  "processRows pool i [] dbst = dbst"
| "processRows pool i (row # rest) dbst =
     processRows pool (i + 1) rest (processRow pool (i + 2) row dbst)"

definition processCSVData :: "('db, 'r) pool \<Rightarrow> csv_row list \<Rightarrow> 'db \<Rightarrow> 'db \<times> stats" where
  "processCSVData pool data db = processRows pool 0 data (db, initial_stats)"

section \<open>The store of database/schema.sql\<close>

text \<open>
  The four tables of schema.sql, a row as a record, a nullable column as an option. The
  columns are named with the alias the queries give their table (\<open>c\<close>, \<open>i\<close>, \<open>t\<close>,
  \<open>p\<close>). \<^verbatim>\<open>DECIMAL(15,2)\<close> values are exact rationals. The two time stamps of every
  table (\<^verbatim>\<open>created_at\<close>, \<^verbatim>\<open>updated_at\<close>) are left out: no statement of the loader or
  of the reports reads them.
\<close>

record client_rec =
  c_client_id :: nat
  c_client_code :: string
  c_first_name :: string
  c_last_name :: string
  c_email :: "string option"
  c_phone :: "string option"
  c_address :: "string option"
  c_city :: "string option"
  c_department :: "string option"
  c_is_active :: "bool option"

record platform_rec =
  p_platform_id :: nat
  p_platform_name :: string
  p_platform_type :: string
  p_is_active :: "bool option"

record invoice_rec =
  i_invoice_id :: nat
  i_invoice_number :: string
  i_client_id :: nat
  i_billing_period :: string
  i_total_amount :: rat
  i_paid_amount :: "rat option"
  i_status :: "string option"
  i_description :: "string option"

record transaction_rec =
  t_transaction_id :: nat
  t_transaction_reference :: string
  t_invoice_id :: nat
  t_platform_id :: nat
  t_transaction_date :: string
  t_amount :: rat
  t_transaction_type :: "string option"
  t_status :: "string option"
  t_description :: "string option"

text \<open>The tables and the next \<^verbatim>\<open>AUTO_INCREMENT\<close> value of each.\<close>

record store =
  clients :: "client_rec list"
  invoices :: "invoice_rec list"
  platforms :: "platform_rec list"
  transactions :: "transaction_rec list"
  next_client_id :: nat
  next_invoice_id :: nat
  next_platform_id :: nat
  next_transaction_id :: nat

datatype table_name = Clients | Invoices | Transactions | Platforms

fun schema_columns :: "table_name \<Rightarrow> string list" where
  "schema_columns Clients =
     [''client_id'', ''client_code'', ''first_name'', ''last_name'', ''email'', ''phone'',
      ''address'', ''city'', ''department'', ''is_active'', ''created_at'', ''updated_at'']"
| "schema_columns Invoices =
     [''invoice_id'', ''invoice_number'', ''client_id'', ''billing_period'', ''total_amount'',
      ''paid_amount'', ''status'', ''description'', ''created_at'', ''updated_at'']"
| "schema_columns Transactions =
     [''transaction_id'', ''transaction_reference'', ''invoice_id'', ''platform_id'',
      ''transaction_date'', ''amount'', ''transaction_type'', ''status'', ''description'',
      ''created_at'', ''updated_at'']"
| "schema_columns Platforms =
     [''platform_id'', ''platform_name'', ''platform_type'', ''is_active'', ''created_at'',
      ''updated_at'']"

definition invoice_statuses :: "string list" where
  "invoice_statuses = [''PENDING'', ''PARTIAL'', ''PAID'', ''OVERDUE'']"

definition transaction_types :: "string list" where
  "transaction_types = [''PAYMENT'', ''REFUND'', ''ADJUSTMENT'']"

definition transaction_statuses :: "string list" where
  "transaction_statuses = [''PENDING'', ''COMPLETED'', ''FAILED'', ''CANCELLED'']"

text \<open>The store right after schema.sql has run: no client, the five seeded platforms.\<close>

definition seed_platform :: "nat \<Rightarrow> string \<Rightarrow> string \<Rightarrow> platform_rec" where
  "seed_platform n name type =
     \<lparr>p_platform_id = n, p_platform_name = name, p_platform_type = type, p_is_active = Some True\<rparr>"

definition schema_store :: store where
  "schema_store =
     \<lparr>clients = [], invoices = [],
      platforms =
        [seed_platform 1 ''Nequi'' ''DIGITAL_WALLET'',
         seed_platform 2 ''Daviplata'' ''DIGITAL_WALLET'',
         seed_platform 3 ''Bancolombia'' ''BANK'',
         seed_platform 4 (''Banco de Bogot'' @ [char_of (195 :: nat), char_of (161 :: nat)]) ''BANK'',
         seed_platform 5 ''BBVA Colombia'' ''BANK''],
      transactions = [],
      next_client_id = 1, next_invoice_id = 1, next_platform_id = 6, next_transaction_id = 1\<rparr>"

section \<open>pool.execute on the statements of the loader\<close>

text \<open>
  What mysql2 and MySQL do with a statement of the loader, as far as schema.sql fixes it:
  mysql2 refuses a bind parameter that is \<^verbatim>\<open>undefined\<close> (the key columns \<open>client_id\<close>,
  \<open>invoice_id\<close> and \<open>platform_id\<close> are \<^verbatim>\<open>NOT NULL\<close> besides); MySQL enforces \<^verbatim>\<open>NOT NULL\<close>,
  \<^verbatim>\<open>UNIQUE\<close>, the \<^verbatim>\<open>ENUM\<close> values and the foreign keys, and numbers the rows. Strings are
  compared as they are (no collation), column widths are not checked, and a failed insert
  uses up no \<^verbatim>\<open>AUTO_INCREMENT\<close> value. The messages stand for MySQL's.
\<close>

datatype exec_result = Rows "nat list" | ResultSetHeader nat nat

definition is_string :: "param \<Rightarrow> bool" where
  "is_string p = (case p of PString _ \<Rightarrow> True | _ \<Rightarrow> False)"

definition str :: "param \<Rightarrow> string" where
  "str p = (case p of PString s \<Rightarrow> s | _ \<Rightarrow> [])"

definition nullable :: "param \<Rightarrow> string option" where
  "nullable p = (case p of PString s \<Rightarrow> Some s | _ \<Rightarrow> None)"

definition is_nullable_string :: "param \<Rightarrow> bool" where
  "is_nullable_string p = (case p of PString _ \<Rightarrow> True | PNull \<Rightarrow> True | _ \<Rightarrow> False)"

text \<open>A number bound to a \<^verbatim>\<open>DECIMAL(15,2)\<close> column: rounded to two places, if it fits.\<close>

definition decimal2 :: "param \<Rightarrow> rat option" where
  "decimal2 p =
     (case p of
        PNumber (Finite q) \<Rightarrow>
          (let r = (if 0 \<le> q then of_int \<lfloor>q * 100 + 1 / 2\<rfloor> / 100
                    else - (of_int \<lfloor>- q * 100 + 1 / 2\<rfloor> / 100))
           in if \<bar>r\<bar> < 10 ^ 13 then Some r else None)
      | _ \<Rightarrow> None)"

text \<open>A number bound to an \<^verbatim>\<open>INT\<close> key column.\<close>

definition key_of :: "param \<Rightarrow> nat option" where
  "key_of p =
     (case p of
        PNumber (Finite q) \<Rightarrow> (if 0 \<le> q \<and> of_int \<lfloor>q\<rfloor> = q then Some (nat \<lfloor>q\<rfloor>) else None)
      | _ \<Rightarrow> None)"

definition enum_ok :: "string list \<Rightarrow> param \<Rightarrow> bool" where
  "enum_ok values p = (case p of PNull \<Rightarrow> True | PString s \<Rightarrow> s \<in> set values | _ \<Rightarrow> False)"

definition select_client :: "param list \<Rightarrow> store \<Rightarrow> string + store \<times> exec_result" where
  "select_client ps s =
     (if length ps \<noteq> 1 then Inl ''Malformed statement''
      else Inr (s, Rows (map c_client_id
                  (filter (\<lambda>c. Some (c_client_code c) = nullable (ps ! 0)) (clients s)))))"

definition insert_client :: "param list \<Rightarrow> store \<Rightarrow> string + store \<times> exec_result" where
  "insert_client ps s =
     (if length ps \<noteq> 8 then Inl ''Malformed statement''
      else if \<not> list_all is_nullable_string ps then Inl ''Incorrect string value''
      else if \<not> list_all is_string (take 3 ps) then Inl ''Column cannot be null''
      else if str (ps ! 0) \<in> set (map c_client_code (clients s))
        then Inl (''Duplicate entry '' @ str (ps ! 0) @ '' for key clients.client_code'')
      else if is_string (ps ! 3) \<and> nullable (ps ! 3) \<in> set (map c_email (clients s))
        then Inl (''Duplicate entry '' @ str (ps ! 3) @ '' for key clients.email'')
      else Inr (s\<lparr>clients := clients s @
                    [\<lparr>c_client_id = next_client_id s, c_client_code = str (ps ! 0),
                      c_first_name = str (ps ! 1), c_last_name = str (ps ! 2),
                      c_email = nullable (ps ! 3), c_phone = nullable (ps ! 4),
                      c_address = nullable (ps ! 5), c_city = nullable (ps ! 6),
                      c_department = nullable (ps ! 7), c_is_active = Some True\<rparr>],
                  next_client_id := next_client_id s + 1\<rparr>,
                ResultSetHeader (next_client_id s) 1))"

definition update_client :: "param list \<Rightarrow> store \<Rightarrow> string + store \<times> exec_result" where
  "update_client ps s =
     (if length ps \<noteq> 8 then Inl ''Malformed statement''
      else if \<not> list_all is_nullable_string ps then Inl ''Incorrect string value''
      else if \<not> list_all is_string (take 2 ps) then Inl ''Column cannot be null''
      else
        (let hit = (\<lambda>c. Some (c_client_code c) = nullable (ps ! 7));
             n = length (filter hit (clients s))
         in if 0 < n \<and> is_string (ps ! 2) \<and>
               (1 < n \<or> nullable (ps ! 2) \<in> set (map c_email (filter (\<lambda>c. \<not> hit c) (clients s))))
            then Inl (''Duplicate entry '' @ str (ps ! 2) @ '' for key clients.email'')
            else Inr (s\<lparr>clients := map (\<lambda>c. if hit c
                          then c\<lparr>c_first_name := str (ps ! 0), c_last_name := str (ps ! 1),
                                 c_email := nullable (ps ! 2), c_phone := nullable (ps ! 3),
                                 c_address := nullable (ps ! 4), c_city := nullable (ps ! 5),
                                 c_department := nullable (ps ! 6)\<rparr>
                          else c) (clients s)\<rparr>,
                      ResultSetHeader 0 n)))"

definition select_invoice :: "param list \<Rightarrow> store \<Rightarrow> string + store \<times> exec_result" where
  "select_invoice ps s =
     (if length ps \<noteq> 1 then Inl ''Malformed statement''
      else Inr (s, Rows (map i_invoice_id
                  (filter (\<lambda>i. Some (i_invoice_number i) = nullable (ps ! 0)) (invoices s)))))"

definition insert_invoice :: "param list \<Rightarrow> store \<Rightarrow> string + store \<times> exec_result" where
  "insert_invoice ps s =
     (if length ps \<noteq> 6 then Inl ''Malformed statement''
      else if \<not> is_string (ps ! 0) \<or> \<not> is_string (ps ! 2) then Inl ''Column cannot be null''
      else if key_of (ps ! 1) = None then Inl ''Column client_id cannot be null''
      else if decimal2 (ps ! 3) = None then Inl ''Incorrect decimal value for column total_amount''
      else if ps ! 4 \<noteq> PNull \<and> decimal2 (ps ! 4) = None
        then Inl ''Incorrect decimal value for column paid_amount''
      else if \<not> enum_ok invoice_statuses (ps ! 5) then Inl ''Data truncated for column status''
      else if str (ps ! 0) \<in> set (map i_invoice_number (invoices s))
        then Inl (''Duplicate entry '' @ str (ps ! 0) @ '' for key invoices.invoice_number'')
      else if the (key_of (ps ! 1)) \<notin> set (map c_client_id (clients s))
        then Inl ''Cannot add or update a child row: a foreign key constraint fails''
      else Inr (s\<lparr>invoices := invoices s @
                    [\<lparr>i_invoice_id = next_invoice_id s, i_invoice_number = str (ps ! 0),
                      i_client_id = the (key_of (ps ! 1)), i_billing_period = str (ps ! 2),
                      i_total_amount = the (decimal2 (ps ! 3)), i_paid_amount = decimal2 (ps ! 4),
                      i_status = nullable (ps ! 5), i_description = None\<rparr>],
                  next_invoice_id := next_invoice_id s + 1\<rparr>,
                ResultSetHeader (next_invoice_id s) 1))"

definition update_invoice :: "param list \<Rightarrow> store \<Rightarrow> string + store \<times> exec_result" where
  "update_invoice ps s =
     (if length ps \<noteq> 5 then Inl ''Malformed statement''
      else if \<not> is_string (ps ! 0) then Inl ''Column cannot be null''
      else if decimal2 (ps ! 1) = None then Inl ''Incorrect decimal value for column total_amount''
      else if ps ! 2 \<noteq> PNull \<and> decimal2 (ps ! 2) = None
        then Inl ''Incorrect decimal value for column paid_amount''
      else if \<not> enum_ok invoice_statuses (ps ! 3) then Inl ''Data truncated for column status''
      else
        (let hit = (\<lambda>i. Some (i_invoice_number i) = nullable (ps ! 4))
         in Inr (s\<lparr>invoices := map (\<lambda>i. if hit i
                       then i\<lparr>i_billing_period := str (ps ! 0),
                              i_total_amount := the (decimal2 (ps ! 1)),
                              i_paid_amount := decimal2 (ps ! 2), i_status := nullable (ps ! 3)\<rparr>
                       else i) (invoices s)\<rparr>,
                 ResultSetHeader 0 (length (filter hit (invoices s))))))"

definition select_platform :: "param list \<Rightarrow> store \<Rightarrow> string + store \<times> exec_result" where
  "select_platform ps s =
     (if length ps \<noteq> 1 then Inl ''Malformed statement''
      else Inr (s, Rows (map p_platform_id
                  (filter (\<lambda>p. Some (p_platform_name p) = nullable (ps ! 0)) (platforms s)))))"

definition insert_platform :: "param list \<Rightarrow> store \<Rightarrow> string + store \<times> exec_result" where
  "insert_platform ps s =
     (if length ps \<noteq> 2 then Inl ''Malformed statement''
      else if \<not> list_all is_string ps then Inl ''Column cannot be null''
      else if str (ps ! 0) \<in> set (map p_platform_name (platforms s))
        then Inl (''Duplicate entry '' @ str (ps ! 0) @ '' for key platforms.platform_name'')
      else Inr (s\<lparr>platforms := platforms s @
                    [\<lparr>p_platform_id = next_platform_id s, p_platform_name = str (ps ! 0),
                      p_platform_type = str (ps ! 1), p_is_active = Some True\<rparr>],
                  next_platform_id := next_platform_id s + 1\<rparr>,
                ResultSetHeader (next_platform_id s) 1))"

definition select_transaction :: "param list \<Rightarrow> store \<Rightarrow> string + store \<times> exec_result" where
  "select_transaction ps s =
     (if length ps \<noteq> 1 then Inl ''Malformed statement''
      else Inr (s, Rows (map t_transaction_id
                  (filter (\<lambda>t. Some (t_transaction_reference t) = nullable (ps ! 0))
                     (transactions s)))))"

text \<open>The checks an inserted or updated transaction passes; \<open>k\<close> is where its columns start.\<close>

definition transaction_defect :: "param list \<Rightarrow> nat \<Rightarrow> store \<Rightarrow> string option" where
  "transaction_defect ps k s =
     (if key_of (ps ! k) = None then Some ''Column invoice_id cannot be null''
      else if key_of (ps ! (k + 1)) = None then Some ''Column platform_id cannot be null''
      else if \<not> is_string (ps ! (k + 2)) then Some ''Column transaction_date cannot be null''
      else if decimal2 (ps ! (k + 3)) = None then Some ''Incorrect decimal value for column amount''
      else if \<not> enum_ok transaction_types (ps ! (k + 4))
        then Some ''Data truncated for column transaction_type''
      else if \<not> enum_ok transaction_statuses (ps ! (k + 5))
        then Some ''Data truncated for column status''
      else if the (key_of (ps ! k)) \<notin> set (map i_invoice_id (invoices s)) \<or>
              the (key_of (ps ! (k + 1))) \<notin> set (map p_platform_id (platforms s))
        then Some ''Cannot add or update a child row: a foreign key constraint fails''
      else None)"

definition insert_transaction :: "param list \<Rightarrow> store \<Rightarrow> string + store \<times> exec_result" where
  "insert_transaction ps s =
     (if length ps \<noteq> 7 then Inl ''Malformed statement''
      else if \<not> is_string (ps ! 0) then Inl ''Column cannot be null''
      else if str (ps ! 0) \<in> set (map t_transaction_reference (transactions s))
        then Inl (''Duplicate entry '' @ str (ps ! 0) @ '' for key transactions.transaction_reference'')
      else
        (case transaction_defect ps 1 s of
           Some message \<Rightarrow> Inl message
         | None \<Rightarrow>
             Inr (s\<lparr>transactions := transactions s @
                      [\<lparr>t_transaction_id = next_transaction_id s,
                        t_transaction_reference = str (ps ! 0),
                        t_invoice_id = the (key_of (ps ! 1)), t_platform_id = the (key_of (ps ! 2)),
                        t_transaction_date = str (ps ! 3), t_amount = the (decimal2 (ps ! 4)),
                        t_transaction_type = nullable (ps ! 5), t_status = nullable (ps ! 6),
                        t_description = None\<rparr>],
                    next_transaction_id := next_transaction_id s + 1\<rparr>,
                  ResultSetHeader (next_transaction_id s) 1)))"

definition update_transaction :: "param list \<Rightarrow> store \<Rightarrow> string + store \<times> exec_result" where
  "update_transaction ps s =
     (if length ps \<noteq> 7 then Inl ''Malformed statement''
      else
        (let hit = (\<lambda>t. Some (t_transaction_reference t) = nullable (ps ! 6))
         in case transaction_defect ps 0 s of
              Some message \<Rightarrow> Inl message
            | None \<Rightarrow>
                Inr (s\<lparr>transactions := map (\<lambda>t. if hit t
                          then t\<lparr>t_invoice_id := the (key_of (ps ! 0)),
                                 t_platform_id := the (key_of (ps ! 1)),
                                 t_transaction_date := str (ps ! 2),
                                 t_amount := the (decimal2 (ps ! 3)),
                                 t_transaction_type := nullable (ps ! 4),
                                 t_status := nullable (ps ! 5)\<rparr>
                          else t) (transactions s)\<rparr>,
                     ResultSetHeader 0 (length (filter hit (transactions s))))))"

fun run_statement :: "statement \<Rightarrow> param list \<Rightarrow> store \<Rightarrow> string + store \<times> exec_result" where
  "run_statement SelectClientByCode = select_client"
| "run_statement UpdateClient = update_client"
| "run_statement InsertClient = insert_client"
| "run_statement SelectInvoiceByNumber = select_invoice"
| "run_statement UpdateInvoice = update_invoice"
| "run_statement InsertInvoice = insert_invoice"
| "run_statement SelectPlatformByName = select_platform"
| "run_statement InsertPlatform = insert_platform"
| "run_statement SelectTransactionByReference = select_transaction"
| "run_statement UpdateTransaction = update_transaction"
| "run_statement InsertTransaction = insert_transaction"

definition mysql_execute :: "(store, exec_result) pool" where
  "mysql_execute stmt ps s =
     (if PUndefined \<in> set ps then Inl ''Bind parameters must not contain undefined''
      else run_statement stmt ps s)"

section \<open>The reporting queries: what the handlers share\<close>

text \<open>
  A \<^verbatim>\<open>SELECT\<close> of routes/queries.js under \<^verbatim>\<open>pool.execute\<close>: MySQL resolves every column
  the statement names against the table its alias stands for, and rejects the statement
  at the first one the table does not have; otherwise the rows are computed and the store
  is left as it was.
\<close>

definition unknown_column :: "(table_name \<times> string) list \<Rightarrow> (table_name \<times> string) option" where
  "unknown_column cols = find (\<lambda>tc. snd tc \<notin> set (schema_columns (fst tc))) cols"

definition mysql_select ::
  "(table_name \<times> string) list \<Rightarrow> (store \<Rightarrow> 'row list) \<Rightarrow> store \<Rightarrow> string + store \<times> 'row list" where
  "mysql_select cols rows s =
     (case unknown_column cols of
        Some tc \<Rightarrow> Inl (''Unknown column '' @ snd tc @ '' in field list'')
      | None \<Rightarrow> Inr (s, rows s))"

text \<open>The two answers of a handler: status 200 with data and summary, or status 500.\<close>

datatype ('row, 'summary) response = Ok200 "'row list" 'summary | Error500 string string


text \<open>
  Arithmetic on the numbers of a summary. A \<^verbatim>\<open>DECIMAL\<close> column reaches JavaScript as a
  string, \<^verbatim>\<open>NULL\<close> as \<^verbatim>\<open>null\<close>; \<^verbatim>\<open>parseFloat\<close> of it is the number, or \<^verbatim>\<open>NaN\<close>.
\<close>

definition js_add :: "js_number \<Rightarrow> js_number \<Rightarrow> js_number" where
  "js_add a b =
     (case a of
        NaN \<Rightarrow> NaN
      | Finite x \<Rightarrow> (case b of Finite y \<Rightarrow> Finite (x + y) | other \<Rightarrow> other)
      | PosInfinity \<Rightarrow> (case b of NaN \<Rightarrow> NaN | NegInfinity \<Rightarrow> NaN | _ \<Rightarrow> PosInfinity)
      | NegInfinity \<Rightarrow> (case b of NaN \<Rightarrow> NaN | PosInfinity \<Rightarrow> NaN | _ \<Rightarrow> NegInfinity))"


definition parseFloat_decimal :: "rat option \<Rightarrow> js_number" where
  "parseFloat_decimal v = (case v of None \<Rightarrow> NaN | Some q \<Rightarrow> Finite q)"

section \<open>GET /api/queries/total-payments\<close>




















section \<open>GET /api/queries/pending-invoices\<close>

record invoice_transaction =
  it_transaction_id :: nat
  it_transaction_reference :: string
  it_amount :: rat
  it_transaction_date :: string
  it_status :: "string option"
  it_platform_name :: string

record pending_row =
  pi_invoice_id :: nat
  pi_invoice_number :: string
  pi_client_code :: string
  pi_client_name :: string
  pi_email :: "string option"
  pi_phone :: "string option"
  pi_city :: "string option"
  pi_department :: "string option"
  pi_invoice_date :: "string option"
  pi_due_date :: "string option"
  pi_total_amount :: rat
  pi_paid_amount :: "rat option"
  pi_pending_amount :: "rat option"
  pi_status :: "string option"
  pi_description :: "string option"
  pi_days_overdue :: "int option"
  pi_payment_status :: string
  pi_transactions :: "invoice_transaction list option"

text \<open>The columns the statement names, in the order it names them.\<close>

definition pending_invoices_columns :: "(table_name \<times> string) list" where
  "pending_invoices_columns =
     [(Invoices, ''invoice_id''), (Invoices, ''invoice_number''), (Clients, ''client_code''),
      (Clients, ''first_name''), (Clients, ''last_name''), (Clients, ''email''),
      (Clients, ''phone''), (Clients, ''city''), (Clients, ''department''),
      (Invoices, ''invoice_date''), (Invoices, ''due_date''), (Invoices, ''total_amount''),
      (Invoices, ''paid_amount''), (Invoices, ''status''), (Invoices, ''description''),
      (Transactions, ''transaction_id''), (Transactions, ''transaction_reference''),
      (Transactions, ''amount''), (Transactions, ''transaction_date''),
      (Transactions, ''status''), (Platforms, ''platform_name''),
      (Transactions, ''platform_id''), (Platforms, ''platform_id''),
      (Transactions, ''invoice_id''), (Invoices, ''client_id''), (Clients, ''client_id''),
      (Clients, ''is_active'')]"

text \<open>
  \<open>FROM invoices i JOIN clients c ON i.client_id = c.client_id
   WHERE i.status IN ('PENDING', 'PARTIAL', 'OVERDUE') AND c.is_active = TRUE\<close>.
\<close>

definition pending_invoices_selection :: "store \<Rightarrow> (invoice_rec \<times> client_rec) list" where
  "pending_invoices_selection s =
     concat (map (\<lambda>i. map (\<lambda>c. (i, c))
                        (filter (\<lambda>c. i_client_id i = c_client_id c \<and>
                                      i_status i \<in> set [Some ''PENDING'', Some ''PARTIAL'', Some ''OVERDUE''] \<and>
                                      c_is_active c = Some True) (clients s)))
               (invoices s))"

text \<open>The subquery: \<open>JSON_ARRAYAGG\<close> over the invoice's transactions, \<^verbatim>\<open>NULL\<close> when none.\<close>

definition invoice_transactions :: "store \<Rightarrow> invoice_rec \<Rightarrow> invoice_transaction list option" where
  "invoice_transactions s i =
     (case concat (map (\<lambda>t. map (\<lambda>p.
               \<lparr>it_transaction_id = t_transaction_id t,
                it_transaction_reference = t_transaction_reference t,
                it_amount = t_amount t, it_transaction_date = t_transaction_date t,
                it_status = t_status t, it_platform_name = p_platform_name p\<rparr>)
             (filter (\<lambda>p. t_platform_id t = p_platform_id p) (platforms s)))
           (filter (\<lambda>t. t_invoice_id t = i_invoice_id i) (transactions s))) of
        [] \<Rightarrow> None
      | x # xs \<Rightarrow> Some (x # xs))"

text \<open>
  The row of a selected invoice. \<open>i.invoice_date\<close> and \<open>i.due_date\<close> are not columns
  of the invoices table of schema.sql, so they and what the statement computes from them
  (\<open>days_overdue\<close>, \<open>payment_status\<close>, the \<open>ORDER BY\<close>) have no value there: the
  row carries \<^verbatim>\<open>NULL\<close> for them and the rows stay in the order of the selection. The
  statement is rejected before a row is built (\<open>mysql_select\<close>).
\<close>

definition pending_row_of :: "store \<Rightarrow> invoice_rec \<times> client_rec \<Rightarrow> pending_row" where
  "pending_row_of s ic =
     (case ic of (i, c) \<Rightarrow>
        \<lparr>pi_invoice_id = i_invoice_id i, pi_invoice_number = i_invoice_number i,
         pi_client_code = c_client_code c,
         pi_client_name = c_first_name c @ '' '' @ c_last_name c,
         pi_email = c_email c, pi_phone = c_phone c, pi_city = c_city c,
         pi_department = c_department c, pi_invoice_date = None, pi_due_date = None,
         pi_total_amount = i_total_amount i, pi_paid_amount = i_paid_amount i,
         pi_pending_amount = map_option (\<lambda>paid. i_total_amount i - paid) (i_paid_amount i),
         pi_status = i_status i, pi_description = i_description i,
         pi_days_overdue = None, pi_payment_status = ''PENDING'',
         pi_transactions = invoice_transactions s i\<rparr>)"

definition pending_invoices_rows :: "store \<Rightarrow> pending_row list" where
  "pending_invoices_rows s = map (pending_row_of s) (pending_invoices_selection s)"

record pending_summary =
  total_pending_invoices :: nat
  total_pending_amount :: js_number
  overdue_invoices :: nat
  due_today_invoices :: nat

text \<open>\<^verbatim>\<open>days_overdue > 0\<close> and \<^verbatim>\<open>days_overdue === 0\<close>; both are false for \<^verbatim>\<open>null\<close>.\<close>

definition pending_invoices_summary :: "pending_row list \<Rightarrow> pending_summary" where
  "pending_invoices_summary data =
     \<lparr>total_pending_invoices = length data,
      total_pending_amount =
        foldl (\<lambda>sum invoice. js_add sum (parseFloat_decimal (pi_pending_amount invoice)))
          (Finite 0) data,
      overdue_invoices =
        length (filter (\<lambda>invoice. case pi_days_overdue invoice of None \<Rightarrow> False | Some d \<Rightarrow> 0 < d) data),
      due_today_invoices =
        length (filter (\<lambda>invoice. pi_days_overdue invoice = Some 0) data)\<rparr>"

definition pending_invoices_response ::
  "pending_row list query_result \<Rightarrow> (pending_row, pending_summary) response" where
  "pending_invoices_response result =
     (case result of
        QFailure error \<Rightarrow> Error500 ''Error retrieving pending invoices'' error
      | QSuccess data \<Rightarrow> Ok200 data (pending_invoices_summary data))"

definition pending_invoices_handler :: "store \<Rightarrow> (pending_row, pending_summary) response" where
  "pending_invoices_handler s =
     pending_invoices_response
       (snd (executeQuery (mysql_select pending_invoices_columns pending_invoices_rows) s))"

section \<open>GET /api/queries/transactions-by-platform: the summary\<close>











section \<open>Predicates and sample data of the theorems\<close>

text \<open>The three counters of every entity kind agree: processed = created + updated.\<close>

definition balanced :: "stats \<Rightarrow> bool" where
  "balanced st =
     (clients_processed st = clients_created st + clients_updated st \<and>
      invoices_processed st = invoices_created st + invoices_updated st \<and>
      transactions_processed st = transactions_created st + transactions_updated st)"

text \<open>How many of the seven checks of \<open>validateRow\<close> a row fails.\<close>

definition failed_checks :: "csv_row \<Rightarrow> nat" where
  "failed_checks row =
     of_bool (missing_client row) + of_bool (falsy (invoice_number row)) +
     of_bool (falsy (transaction_reference row)) + of_bool (falsy (platform_name row)) +
     of_bool (invalid_amount (total_amount row)) + of_bool (invalid_amount (paid_amount row)) +
     of_bool (invalid_amount (transaction_amount row))"

text \<open>A row with every column filled in, on the seeded platform Nequi.\<close>

definition sample_row :: csv_row where
  "sample_row =
     \<lparr>client_code = Some ''TEST001'', first_name = Some ''Test'', last_name = Some ''User'',
      email = Some ''test@example.com'', phone = Some ''3001234567'', address = Some ''Calle 1'',
      city = Some ''Bogota'', department = Some ''Cundinamarca'',
      invoice_number = Some ''INV-1'', billing_period = Some ''2024-01'',
      total_amount = Some ''100'', paid_amount = Some ''100'', invoice_status = Some ''PAID'',
      transaction_reference = Some ''TXN-1'', transaction_date = Some ''2024-01-15 10:00:00'',
      transaction_amount = Some ''100'', transaction_type = Some ''PAYMENT'',
      transaction_status = Some ''COMPLETED'', platform_name = Some ''Nequi''\<rparr>"

text \<open>The same row with an empty platform name and a total amount that is no number.\<close>

definition no_platform_row :: csv_row where
  "no_platform_row = sample_row\<lparr>total_amount := Some ''abc'', platform_name := Some []\<rparr>"

text \<open>The same row from a file without the column \<open>invoice_number\<close>.\<close>

definition no_invoice_row :: csv_row where
  "no_invoice_row = sample_row\<lparr>invoice_number := None\<rparr>"

text \<open>The store after the sample row has been imported once into the seeded store.\<close>

definition imported_once :: store where
  "imported_once = fst (processCSVData mysql_execute [sample_row] schema_store)"







text \<open>
  A store with two active clients, Ana with a completed and a pending payment and Luis
  with none, and the deactivated client Eva with a completed payment.
\<close>

definition report_client :: "nat \<Rightarrow> string \<Rightarrow> string \<Rightarrow> bool \<Rightarrow> client_rec" where
  "report_client n code name active =
     \<lparr>c_client_id = n, c_client_code = code, c_first_name = name, c_last_name = ''Rojas'',
      c_email = None, c_phone = None, c_address = None, c_city = Some ''Medellin'',
      c_department = Some ''Antioquia'', c_is_active = Some active\<rparr>"

definition report_invoice :: "nat \<Rightarrow> string \<Rightarrow> nat \<Rightarrow> rat \<Rightarrow> rat \<Rightarrow> string \<Rightarrow> invoice_rec" where
  "report_invoice n number owner billed paid status =
     \<lparr>i_invoice_id = n, i_invoice_number = number, i_client_id = owner,
      i_billing_period = ''2024-01'', i_total_amount = billed, i_paid_amount = Some paid,
      i_status = Some status, i_description = None\<rparr>"

definition report_transaction ::
  "nat \<Rightarrow> string \<Rightarrow> nat \<Rightarrow> nat \<Rightarrow> rat \<Rightarrow> string \<Rightarrow> transaction_rec" where
  "report_transaction n reference invoice platform amount status =
     \<lparr>t_transaction_id = n, t_transaction_reference = reference, t_invoice_id = invoice,
      t_platform_id = platform, t_transaction_date = ''2024-01-15 10:00:00'', t_amount = amount,
      t_transaction_type = Some ''PAYMENT'', t_status = Some status, t_description = None\<rparr>"

definition report_store :: store where
  "report_store =
     schema_store
       \<lparr>clients := [report_client 1 ''CLI001'' ''Ana'' True, report_client 2 ''CLI002'' ''Luis'' True,
                    report_client 3 ''CLI003'' ''Eva'' False],
        invoices := [report_invoice 1 ''INV-A1'' 1 150 100 ''PARTIAL'',
                     report_invoice 2 ''INV-L1'' 2 80 0 ''PENDING'',
                     report_invoice 3 ''INV-E1'' 3 70 70 ''PAID''],
        transactions := [report_transaction 1 ''TXN-A1'' 1 1 100 ''COMPLETED'',
                         report_transaction 2 ''TXN-A2'' 1 2 50 ''PENDING'',
                         report_transaction 3 ''TXN-E1'' 3 1 70 ''COMPLETED''],
        next_client_id := 4, next_invoice_id := 4, next_transaction_id := 4\<rparr>"

section \<open>The loader never sees what a statement returned\<close>

lemma js_gt_length: "js_gt (prop_length r) n = False"
  by (simp add: js_gt_def prop_length_def split: query_result.splits)

lemma prop_insertId_undefined: "prop_insertId r = None"
  by (simp add: prop_insertId_def split: query_result.splits)

lemma processClient_result:
  "snd (processClient pool row db) = Inr \<lparr>entityId = None, created = True\<rparr>"
  by (simp add: processClient_def js_gt_length prop_insertId_undefined Let_def split: prod.splits)

lemma processInvoice_result:
  "snd (processInvoice pool row cid db) = Inr \<lparr>entityId = None, created = True\<rparr>"
  by (simp add: processInvoice_def js_gt_length prop_insertId_undefined Let_def split: prod.splits)

lemma getOrCreatePlatform_result: "snd (getOrCreatePlatform pool row db) = Inr None"
  by (simp add: getOrCreatePlatform_def js_gt_length prop_insertId_undefined Let_def
      split: prod.splits)

lemma processTransaction_result:
  "snd (processTransaction pool row iid db) = Inr \<lparr>entityId = None, created = True\<rparr>"
  using getOrCreatePlatform_result [of pool row db]
  by (auto simp: processTransaction_def js_gt_length prop_insertId_undefined Let_def
      split: prod.splits sum.splits)

section \<open>The counters\<close>

lemma balanced_count_client: "balanced st \<Longrightarrow> balanced (count_client r st)"
  by (simp add: balanced_def count_client_def Let_def)

lemma balanced_count_invoice: "balanced st \<Longrightarrow> balanced (count_invoice r st)"
  by (simp add: balanced_def count_invoice_def Let_def)

lemma balanced_count_transaction: "balanced st \<Longrightarrow> balanced (count_transaction r st)"
  by (simp add: balanced_def count_transaction_def Let_def)

lemma balanced_catch_row: "balanced st \<Longrightarrow> balanced (catch_row n m st)"
  by (simp add: balanced_def catch_row_def)

lemma balanced_errors: "balanced st \<Longrightarrow> balanced (st\<lparr>errors := es\<rparr>)"
  by (simp add: balanced_def)

text \<open>
  One turn of the loop keeps the counters balanced, whichever of its branches it takes:
  the proof goes through the \<^verbatim>\<open>catch\<close> branches as well.
\<close>

lemma balanced_processRow:
  assumes "balanced (snd dbst)"
  shows "balanced (snd (processRow pool n row dbst))"
  using assms
  by (auto simp: processRow_def Let_def balanced_count_client balanced_count_invoice
      balanced_count_transaction balanced_catch_row balanced_errors
      split: prod.splits sum.splits)

lemma balanced_processRows:
  "balanced (snd dbst) \<Longrightarrow> balanced (snd (processRows pool i data dbst))"
  by (induction data arbitrary: i dbst) (simp_all add: balanced_processRow)

lemma balanced_initial: "balanced initial_stats"
  by (simp add: balanced_def initial_stats_def)

text \<open>
  C9. After every run of \<open>processCSVData\<close>, over any database and any behaviour of
  \<^verbatim>\<open>pool.execute\<close>, the processed counter of each entity kind is the sum of its created
  and its updated counter.
\<close>

theorem processed_is_created_plus_updated:
  "clients_processed (snd (processCSVData pool data db)) =
     clients_created (snd (processCSVData pool data db)) +
     clients_updated (snd (processCSVData pool data db)) \<and>
   invoices_processed (snd (processCSVData pool data db)) =
     invoices_created (snd (processCSVData pool data db)) +
     invoices_updated (snd (processCSVData pool data db)) \<and>
   transactions_processed (snd (processCSVData pool data db)) =
     transactions_created (snd (processCSVData pool data db)) +
     transactions_updated (snd (processCSVData pool data db))"
proof -
  have "balanced (snd (processRows pool 0 data (db, initial_stats)))"
    by (rule balanced_processRows) (simp add: balanced_initial)
  then show ?thesis
    by (simp add: processCSVData_def balanced_def)
qed

theorem processed_is_created_plus_updated_witness:
  "clients_processed
     (snd (processCSVData mysql_execute [sample_row, no_invoice_row, sample_row] schema_store)) = 2 \<and>
   invoices_processed
     (snd (processCSVData mysql_execute [sample_row, no_invoice_row, sample_row] schema_store)) = 2 \<and>
   transactions_processed
     (snd (processCSVData mysql_execute [sample_row, no_invoice_row, sample_row] schema_store)) = 2"
proof -
  let ?st = "snd (processCSVData mysql_execute [sample_row, no_invoice_row, sample_row] schema_store)"
  have "clients_created ?st = 2" "clients_updated ?st = 0"
    "invoices_created ?st = 2" "invoices_updated ?st = 0"
    "transactions_created ?st = 2" "transactions_updated ?st = 0"
    by code_simp+
  then show ?thesis
    using processed_is_created_plus_updated
      [of mysql_execute "[sample_row, no_invoice_row, sample_row]" schema_store]
    by simp
qed

section \<open>The error list\<close>

lemma errors_count_client: "errors (count_client r st) = errors st"
  by (simp add: count_client_def Let_def)

lemma errors_count_invoice: "errors (count_invoice r st) = errors st"
  by (simp add: count_invoice_def Let_def)

lemma errors_count_transaction: "errors (count_transaction r st) = errors st"
  by (simp add: count_transaction_def Let_def)

text \<open>A turn of the loop adds the defects of its row to the error list and nothing else.\<close>

lemma processRow_errors:
  "errors (snd (processRow pool n row dbst)) = errors (snd dbst) @ validateRow row n"
proof (cases "validateRow row n = []")
  case False
  then show ?thesis by (simp add: processRow_def Let_def)
next
  case True
  obtain db1 where c:
    "processClient pool row (fst dbst) = (db1, Inr \<lparr>entityId = None, created = True\<rparr>)"
    using processClient_result [of pool row "fst dbst"]
    by (cases "processClient pool row (fst dbst)") simp
  obtain db2 where i:
    "processInvoice pool row None db1 = (db2, Inr \<lparr>entityId = None, created = True\<rparr>)"
    using processInvoice_result [of pool row None db1]
    by (cases "processInvoice pool row None db1") simp
  obtain db3 where t:
    "processTransaction pool row None db2 = (db3, Inr \<lparr>entityId = None, created = True\<rparr>)"
    using processTransaction_result [of pool row None db2]
    by (cases "processTransaction pool row None db2") simp
  show ?thesis
    using True c i t
    by (simp add: processRow_def Let_def errors_count_client errors_count_invoice
        errors_count_transaction)
qed

lemma processRows_errors:
  "errors (snd (processRows pool i data dbst)) =
     errors (snd dbst) @ concat (map (\<lambda>k. validateRow (data ! k) (i + k + 2)) [0..<length data])"
proof (induction data arbitrary: i dbst)
  case Nil
  then show ?case by simp
next
  case (Cons row rest)
  have "[0..<length (row # rest)] = 0 # map Suc [0..<length rest]"
    by (simp add: upt_conv_Cons map_Suc_upt del: upt_Suc)
  then show ?case
    by (simp add: Cons.IH processRow_errors o_def del: upt_Suc)
qed

lemma starts_with_append: "starts_with p (p @ m)"
  by (simp add: starts_with_def)

lemma validateRow_prefixed: "list_all (starts_with (row_prefix n)) (validateRow row n)"
  by (simp add: validateRow_def starts_with_append)

text \<open>
  C8. For every batch, the error list is made of the messages of the data rows in their
  order, the row of index \<open>i\<close> (counted from 0) validated under the number \<open>i + 2\<close>, and
  each of its messages starts with "Row \<open>i + 2\<close>: "; so the first data row is reported as
  row 2.
\<close>

theorem error_row_number_is_index_plus_two:
  "errors (snd (processCSVData pool data db)) =
     concat (map (\<lambda>i. validateRow (data ! i) (i + 2)) [0..<length data]) \<and>
   list_all (\<lambda>i. list_all (starts_with (''Row '' @ show_nat (i + 2) @ '': ''))
                   (validateRow (data ! i) (i + 2))) [0..<length data]"
proof -
  have "list_all (starts_with (''Row '' @ show_nat n @ '': '')) (validateRow row n)" for row n
    using validateRow_prefixed [of n row] by (simp add: row_prefix_def)
  then show ?thesis
    by (simp add: processCSVData_def processRows_errors initial_stats_def list_all_iff)
qed

theorem error_row_number_is_index_plus_two_witness:
  "errors (snd (processCSVData mysql_execute [no_invoice_row, sample_row, no_invoice_row]
                  schema_store)) =
     [''Row 2: Missing invoice number'', ''Row 4: Missing invoice number'']"
proof -
  have "concat (map (\<lambda>i. validateRow ([no_invoice_row, sample_row, no_invoice_row] ! i) (i + 2))
          [0..<length [no_invoice_row, sample_row, no_invoice_row]]) =
        [''Row 2: Missing invoice number'', ''Row 4: Missing invoice number'']"
    by code_simp
  then show ?thesis
    using error_row_number_is_index_plus_two
      [of mysql_execute "[no_invoice_row, sample_row, no_invoice_row]" schema_store]
    by simp
qed

section \<open>Rows that fail validation\<close>

lemma length_validateRow: "length (validateRow row n) = failed_checks row"
  by (simp add: validateRow_def failed_checks_def)

text \<open>
  C4, as the code has it. A row that lacks one of \<open>client_code\<close>, \<open>first_name\<close>,
  \<open>last_name\<close>, \<open>invoice_number\<close>, \<open>transaction_reference\<close>, \<open>platform_name\<close> leaves
  the database and every counter as they were, whatever \<^verbatim>\<open>pool.execute\<close> would do, and
  adds to the error list one defect for each check it fails, which is at least one; so
  does the run over the batch of that one row.
\<close>

theorem defective_row_skipped:
  assumes "falsy (client_code row) \<or> falsy (first_name row) \<or> falsy (last_name row) \<or>
           falsy (invoice_number row) \<or> falsy (transaction_reference row) \<or>
           falsy (platform_name row)"
  shows "processRow pool n row (db, st) = (db, st\<lparr>errors := errors st @ validateRow row n\<rparr>) \<and>
         processCSVData pool [row] db = (db, initial_stats\<lparr>errors := validateRow row 2\<rparr>) \<and>
         length (validateRow row n) = failed_checks row \<and> 1 \<le> failed_checks row"
proof -
  have one: "1 \<le> failed_checks row"
    using assms by (auto simp: failed_checks_def missing_client_def)
  then have "0 < length (validateRow row k)" for k
    by (simp add: length_validateRow)
  then have skip: "processRow pool k row (d, t) = (d, t\<lparr>errors := errors t @ validateRow row k\<rparr>)"
    for k d t
    by (simp add: processRow_def Let_def)
  have "processCSVData pool [row] db = (db, initial_stats\<lparr>errors := validateRow row 2\<rparr>)"
    by (simp add: processCSVData_def skip numeral_2_eq_2 initial_stats_def)
  then show ?thesis
    using one skip by (simp add: length_validateRow)
qed

theorem defective_row_skipped_witness:
  "falsy (invoice_number no_invoice_row) \<and>
   processRow mysql_execute 2 no_invoice_row (schema_store, initial_stats) =
     (schema_store, initial_stats\<lparr>errors := [''Row 2: Missing invoice number'']\<rparr>) \<and>
   failed_checks no_invoice_row = 1"
proof -
  have f: "falsy (invoice_number no_invoice_row)"
    by code_simp
  have v: "validateRow no_invoice_row 2 = [''Row 2: Missing invoice number'']"
    by code_simp
  have e: "errors initial_stats = []"
    by (simp add: initial_stats_def)
  show ?thesis
    using f v e defective_row_skipped [of no_invoice_row mysql_execute 2 schema_store initial_stats]
    by simp
qed

text \<open>
  The claim's "exactly one defect" fails: a row whose only missing field is the platform
  name, with a total amount that is no number, gets two defects.
\<close>

theorem defective_row_two_defects:
  "falsy (platform_name no_platform_row) \<and>
   errors (snd (processCSVData mysql_execute [no_platform_row] schema_store)) =
     [''Row 2: Missing platform name'', ''Row 2: Invalid total amount'']"
  by code_simp

section \<open>Importing a row a second time\<close>

text \<open>
  C1, at the sample row. Imported into the store that already holds its client, the row
  is counted as created three times and as updated never, and the store holds the one
  client but neither its invoice nor its transaction.
\<close>

theorem reimport_counts_created_again:
  "snd (processCSVData mysql_execute [sample_row] imported_once) =
     \<lparr>clients_processed = 1, clients_created = 1, clients_updated = 0,
      invoices_processed = 1, invoices_created = 1, invoices_updated = 0,
      transactions_processed = 1, transactions_created = 1, transactions_updated = 0,
      errors = []\<rparr> \<and>
   map c_client_code (clients (fst (processCSVData mysql_execute [sample_row] imported_once))) =
     [''TEST001''] \<and>
   invoices (fst (processCSVData mysql_execute [sample_row] imported_once)) = [] \<and>
   transactions (fst (processCSVData mysql_execute [sample_row] imported_once)) = []"
  by code_simp

text \<open>
  C2, at the sample row. In the store that already holds the client, the insert of
  \<open>processClient\<close> fails on the unique client code, and the statistics of the run list
  no error.
\<close>

theorem storage_error_not_recorded:
  "mysql_execute InsertClient
     [field_param (client_code sample_row), field_param (first_name sample_row),
      field_param (last_name sample_row), or_null (email sample_row),
      or_null (phone sample_row), or_null (address sample_row), or_null (city sample_row),
      or_null (department sample_row)] imported_once =
     Inl ''Duplicate entry TEST001 for key clients.client_code'' \<and>
   errors (snd (processCSVData mysql_execute [sample_row] imported_once)) = []"
  by code_simp

text \<open>
  C7, at the sample row. Nequi is a platform of the seeded store, with id 1; the platform
  block of \<open>processTransaction\<close> leaves the store as it was and \<^verbatim>\<open>platformId\<close>
  undefined.
\<close>

theorem existing_platform_id_not_reused:
  "map p_platform_id
     (filter (\<lambda>p. Some (p_platform_name p) = platform_name sample_row) (platforms schema_store)) =
     [1] \<and>
   getOrCreatePlatform mysql_execute sample_row schema_store = (schema_store, Inr None)"
  by code_simp

text \<open>
  A name that the store does not have is inserted with the type \<^verbatim>\<open>DIGITAL_WALLET\<close>;
  \<^verbatim>\<open>platformId\<close> is undefined after that as well.
\<close>

lemma new_platform_is_digital_wallet:
  "map (\<lambda>p. (p_platform_id p, p_platform_name p, p_platform_type p))
     (drop 5 (platforms (fst (getOrCreatePlatform mysql_execute
        (sample_row\<lparr>platform_name := Some ''PSE''\<rparr>) schema_store)))) =
     [(6, ''PSE'', ''DIGITAL_WALLET'')] \<and>
   snd (getOrCreatePlatform mysql_execute (sample_row\<lparr>platform_name := Some ''PSE''\<rparr>)
          schema_store) = Inr None"
  by code_simp

section \<open>The summary of the transactions report\<close>
















section \<open>Empty result sets\<close>


section \<open>The total-payments report\<close>



























section \<open>The pending-invoices report\<close>

text \<open>What the \<open>FROM\<close> and \<open>WHERE\<close> clauses of the statement select.\<close>

lemma pending_invoices_selection_iff:
  "(i, c) \<in> set (pending_invoices_selection s) \<longleftrightarrow>
     i \<in> set (invoices s) \<and> c \<in> set (clients s) \<and> i_client_id i = c_client_id c \<and>
     i_status i \<in> {Some ''PENDING'', Some ''PARTIAL'', Some ''OVERDUE''} \<and>
     c_is_active c = Some True"
  by (auto simp: pending_invoices_selection_def)

lemma pending_invoices_column_unknown:
  "unknown_column pending_invoices_columns = Some (Invoices, ''invoice_date'')"
  by code_simp

text \<open>Whatever the store holds, the handler answers with status 500.\<close>

lemma pending_invoices_handler_fails:
  "pending_invoices_handler s =
     Error500 ''Error retrieving pending invoices'' ''Unknown column invoice_date in field list''"
  by (simp add: pending_invoices_handler_def executeQuery_def mysql_select_def
      pending_invoices_column_unknown pending_invoices_response_def)

text \<open>
  C5, at the sample store. The invoices INV-A1 (\<^verbatim>\<open>PARTIAL\<close>) and INV-L1 (\<^verbatim>\<open>PENDING\<close>)
  belong to active clients and are what the statement selects, but the statement names
  \<open>i.invoice_date\<close>, which the invoices table of schema.sql does not have: the handler
  answers with status 500 and lists no invoice.
\<close>

theorem pending_invoices_unknown_column:
  "map (\<lambda>ic. (i_invoice_number (fst ic), i_status (fst ic), c_is_active (snd ic)))
     (pending_invoices_selection report_store) =
     [(''INV-A1'', Some ''PARTIAL'', Some True), (''INV-L1'', Some ''PENDING'', Some True)] \<and>
   unknown_column pending_invoices_columns = Some (Invoices, ''invoice_date'') \<and>
   pending_invoices_handler report_store =
     Error500 ''Error retrieving pending invoices'' ''Unknown column invoice_date in field list''"
  by code_simp

end
